theory Spec2Isabelle
  imports Complex_Main
begin

section \<open>Message and payload types (core/models)\<close>

text \<open>
  The interfaces of \<^verbatim>\<open>chat.models.ts\<close> and \<^verbatim>\<open>websocket.models.ts\<close>. An optional
  property (\<^verbatim>\<open>p?: T\<close>) is a \<open>T option\<close>, \<open>None\<close> standing for \<^verbatim>\<open>undefined\<close>. A
  \<^verbatim>\<open>number\<close> that counts or indexes is an \<open>int\<close>; a measured quantity is a \<open>real\<close>
  (the client never computes with either, it only stores and compares them). Field
  names that several interfaces share carry a suffix naming the interface.
\<close>

datatype Role = User | Assistant

datatype Confidence = High | Medium | Low

datatype StepStatus = Processing | Completed | Skipped

text \<open>
  A \<^verbatim>\<open>Date\<close> is either read from the clock (\<^verbatim>\<open>new Date()\<close>, the clock reading being an
  input of the model) or built from a string (\<^verbatim>\<open>new Date(s)\<close>).
\<close>

datatype Date = Date_clock nat | Date_of_string string

datatype SourceCitation = SourceCitation
  (section_sc: string) (page: "int option") (relevance: real)

datatype Assumption = Assumption
  (field_as: string) (value_as: string) (confidence_as: Confidence)

datatype VisualizationHint = VisualizationHint
  (highlight_layers: "string list") (highlight_color: string)

datatype CalculationPayload = CalculationPayload
  (calculation_type: string) (result: real) (unit_cp: string) (limit: "real option")
  (compliant: "bool option") (margin: "real option") (description_cp: string)
  (visualization_hint: "VisualizationHint option")

datatype ClarificationOption = ClarificationOption
  (label: string) (value_co: string) (description_co: "string option")

datatype ClarificationRequestPayload = ClarificationRequestPayload
  (id_cl: string) (question: string) (why_needed: string) (field_name: string)
  (options: "ClarificationOption list option") (priority: int) (affects_rules: "string list")

record ChatMessage =
  id_msg :: string
  role :: Role
  content :: string
  timestamp_msg :: Date
  isStreaming :: "bool option"
  queryType :: "string option"
  confidence :: "Confidence option"
  sources :: "SourceCitation list option"
  calculations :: "CalculationPayload list option"
  assumptions :: "Assumption list option"
  suggestedFollowups :: "string list option"

record ReasoningStep =
  stepIndex :: int
  node :: string
  status :: StepStatus
  message :: string
  timestamp :: Date

record PendingClarification =
  request :: ClarificationRequestPayload
  receivedAt :: Date

subsection \<open>Client to server\<close>

datatype QueryPayload = QueryPayload
  (content_q: string) (include_reasoning: "bool option")

datatype ClarificationResponsePayload = ClarificationResponsePayload
  (question_id: string) (value_cr: string) (text_cr: "string option")

text \<open>
  \<^verbatim>\<open>ClientMessage\<close> is \<^verbatim>\<open>{ type, payload? }\<close>; the constructor is the \<^verbatim>\<open>type\<close> tag, and
  \<^verbatim>\<open>cancel\<close> and \<^verbatim>\<open>ping\<close> are sent without a payload.
\<close>

datatype ClientMessage =
    Query QueryPayload
  | Clarification_response ClarificationResponsePayload
  | Cancel
  | Ping

subsection \<open>Server to client\<close>

datatype ConnectedPayload = ConnectedPayload
  (session_id_cn: string) (has_context_cn: bool) (context_version_cn: int)

datatype ReasoningStepPayload = ReasoningStepPayload
  (step_index: int) (node_rs: string) (status_rs: StepStatus) (message_rs: string)
  (timestamp_rs: string)

datatype TokenPayload = TokenPayload
  (chunk: string) (node_tk: string) (token_index: int)

datatype TokensPayload = TokensPayload
  (chunks: "string list") (node_tks: string)

datatype InferredData = InferredData
  (principal_elevation: "string option") (rear_wall_identified: bool)
  (house_type_detected: "string option")

datatype ContextUpdatedPayload = ContextUpdatedPayload
  (source_cu: string) (version: int) (changes: "string list")
  (inferred_data: "InferredData option")

datatype ResponseCompletePayload = ResponseCompletePayload
  (message_id: string) (final_answer: string) (confidence_rc: Confidence)
  (query_type: string) (sources_rc: "SourceCitation list")
  (calculations_rc: "CalculationPayload list") (assumptions_rc: "Assumption list")
  (suggested_followups: "string list")

datatype ErrorPayload = ErrorPayload
  (code_er: string) (message_er: string) (recoverable: bool)

text \<open>
  \<^verbatim>\<open>ServerMessage\<close> is \<^verbatim>\<open>{ type, payload }\<close> with \<^verbatim>\<open>type\<close> one of the ten
  \<^verbatim>\<open>ServerMessageType\<close> literals; each constructor carries the payload its handler casts
  the map to.
\<close>

datatype ServerMessage =
    Connected_msg ConnectedPayload
  | Reasoning_step ReasoningStepPayload
  | Token TokenPayload
  | Tokens TokensPayload
  | Clarification_request ClarificationRequestPayload
  | Calculation CalculationPayload
  | Context_updated ContextUpdatedPayload
  | Response_complete ResponseCompletePayload
  | Error_msg ErrorPayload
  | Pong

subsection \<open>Sessions and drawing context\<close>

datatype SessionListItem = SessionListItem
  (session_id: string) (created_at: string) (updated_at: "string option")
  (has_context: bool) (object_count: int)

datatype DrawingObject =
    LINE (layer_ln: string) (start_ln: "real \<times> real") (end_ln: "real \<times> real")
  | POLYLINE (layer_pl: string) (points: "(real \<times> real) list") (closed: "bool option")

datatype BoundingBox = BoundingBox
  (min_x: real) (min_y: real) (max_x: real) (max_y: real)

datatype ContextMetadata = ContextMetadata
  (uploaded_at: string) (object_count_md: int) (coordinate_unit: string)
  (context_version: int) (layers_present: "string list")
  (layer_counts: "(string \<times> int) list") (has_plot_boundary: bool)
  (plot_boundary_closed: bool) (bounding_box: "BoundingBox option")

section \<open>The state store (SessionStore)\<close>

datatype ConnectionStatus = Disconnected | Connecting | Connected | Error

text \<open>One field for each signal of the class, with the signal's initial value in \<open>initialStore\<close>.\<close>

record SessionStore =
  currentSessionId :: "string option"
  sessions :: "SessionListItem list"
  wsStatus :: ConnectionStatus
  wsError :: "string option"
  drawingObjects :: "DrawingObject list"
  contextMetadata :: "ContextMetadata option"
  contextVersion :: int
  messages :: "ChatMessage list"
  reasoningSteps :: "ReasoningStep list"
  isAgentThinking :: bool
  streamingContent :: string
  pendingClarification :: "PendingClarification option"
  isAuthenticated :: bool
  currentUserId :: "string option"
  currentUserEmail :: "string option"

definition initialStore :: SessionStore where
  "initialStore =
     \<lparr> currentSessionId = None, sessions = [], wsStatus = Disconnected, wsError = None,
       drawingObjects = [], contextMetadata = None, contextVersion = 0,
       messages = [], reasoningSteps = [], isAgentThinking = False,
       streamingContent = [], pendingClarification = None,
       isAuthenticated = False, currentUserId = None, currentUserEmail = None \<rparr>"

subsection \<open>Derived state\<close>

definition hasDrawing :: "SessionStore \<Rightarrow> bool" where
  "hasDrawing s = (length (drawingObjects s) > 0)"

definition isWaitingForUser :: "SessionStore \<Rightarrow> bool" where
  "isWaitingForUser s = (pendingClarification s \<noteq> None)"

definition canSendQuery :: "SessionStore \<Rightarrow> bool" where
  "canSendQuery s =
     (wsStatus s = Connected \<and> \<not> isAgentThinking s \<and> \<not> isWaitingForUser s)"

subsection \<open>Chat, drawing and session actions\<close>

definition clearChatState :: "SessionStore \<Rightarrow> SessionStore" where
  "clearChatState s =
     s\<lparr> messages := [], reasoningSteps := [], isAgentThinking := False,
        streamingContent := [], pendingClarification := None \<rparr>"

definition clearDrawingState :: "SessionStore \<Rightarrow> SessionStore" where
  "clearDrawingState s =
     s\<lparr> drawingObjects := [], contextMetadata := None, contextVersion := 0 \<rparr>"

definition setCurrentSession :: "string option \<Rightarrow> SessionStore \<Rightarrow> SessionStore" where
  "setCurrentSession sessionId s =
     (let s1 = s\<lparr> currentSessionId := sessionId \<rparr>
      in if sessionId = None then clearDrawingState (clearChatState s1) else s1)"

definition setSessions :: "SessionListItem list \<Rightarrow> SessionStore \<Rightarrow> SessionStore" where
  "setSessions ss s = s\<lparr> sessions := ss \<rparr>"

definition addSession :: "SessionListItem \<Rightarrow> SessionStore \<Rightarrow> SessionStore" where
  "addSession item s = s\<lparr> sessions := item # sessions s \<rparr>"

definition removeSession :: "string \<Rightarrow> SessionStore \<Rightarrow> SessionStore" where
  "removeSession sessionId s =
     (let s1 = s\<lparr> sessions := filter (\<lambda>x. session_id x \<noteq> sessionId) (sessions s) \<rparr>
      in if currentSessionId s1 = Some sessionId then setCurrentSession None s1 else s1)"

text \<open>\<^verbatim>\<open>setConnectionStatus(status, error?)\<close> stores \<^verbatim>\<open>error ?? null\<close>: a call without the
  second argument clears \<open>wsError\<close>.\<close>

definition setConnectionStatus ::
  "ConnectionStatus \<Rightarrow> string option \<Rightarrow> SessionStore \<Rightarrow> SessionStore" where
  "setConnectionStatus st err s = s\<lparr> wsStatus := st, wsError := err \<rparr>"

definition setDrawingContext ::
  "DrawingObject list \<Rightarrow> ContextMetadata \<Rightarrow> SessionStore \<Rightarrow> SessionStore" where
  "setDrawingContext objects metadata s =
     s\<lparr> drawingObjects := objects, contextMetadata := Some metadata,
        contextVersion := context_version metadata \<rparr>"

definition updateContextVersion :: "int \<Rightarrow> SessionStore \<Rightarrow> SessionStore" where
  "updateContextVersion v s = s\<lparr> contextVersion := v \<rparr>"

text \<open>
  \<^verbatim>\<open>addUserMessage\<close> and \<^verbatim>\<open>startAssistantMessage\<close> draw an identifier from
  \<^verbatim>\<open>crypto.randomUUID()\<close> and read the clock; both readings are arguments here (\<open>uuid\<close>,
  \<open>now\<close>). Each returns the identifier together with the new store. The user message
  is built without an \<^verbatim>\<open>isStreaming\<close> property.
\<close>

definition addUserMessage ::
  "string \<Rightarrow> string \<Rightarrow> nat \<Rightarrow> SessionStore \<Rightarrow> string \<times> SessionStore" where
  "addUserMessage text uuid now s =
     (let msg = \<lparr> id_msg = uuid, role = User, content = text,
                   timestamp_msg = Date_clock now, isStreaming = None, queryType = None,
                   confidence = None, sources = None, calculations = None,
                   assumptions = None, suggestedFollowups = None \<rparr>
      in (uuid, s\<lparr> messages := messages s @ [msg] \<rparr>))"

definition startAssistantMessage ::
  "string \<Rightarrow> nat \<Rightarrow> SessionStore \<Rightarrow> string \<times> SessionStore" where
  "startAssistantMessage uuid now s =
     (let msg = \<lparr> id_msg = uuid, role = Assistant, content = [],
                   timestamp_msg = Date_clock now, isStreaming = Some True, queryType = None,
                   confidence = None, sources = None, calculations = None,
                   assumptions = None, suggestedFollowups = None \<rparr>
      in (uuid, s\<lparr> messages := messages s @ [msg], isAgentThinking := True,
                    streamingContent := [], reasoningSteps := [] \<rparr>))"

definition appendToStreamingContent :: "string \<Rightarrow> SessionStore \<Rightarrow> SessionStore" where
  "appendToStreamingContent c s = s\<lparr> streamingContent := streamingContent s @ c \<rparr>"

text \<open>
  The \<^verbatim>\<open>metadata\<close> argument of \<^verbatim>\<open>finalizeAssistantMessage\<close> is an object whose six
  properties are all optional. The object spread \<^verbatim>\<open>...metadata\<close> copies exactly the
  properties the object has, so each is \<open>None\<close> when the object lacks the property (the
  message keeps its own) and \<open>Some v\<close> when it has it (\<open>v\<close> itself may be
  \<^verbatim>\<open>undefined\<close>, that is \<open>None\<close>).
\<close>

record Metadata =
  queryType_md :: "string option option"
  confidence_md :: "Confidence option option"
  sources_md :: "SourceCitation list option option"
  calculations_md :: "CalculationPayload list option option"
  assumptions_md :: "Assumption list option option"
  suggestedFollowups_md :: "string list option option"

definition spread :: "'a option option \<Rightarrow> 'a option \<Rightarrow> 'a option" where
  "spread new old = (case new of None \<Rightarrow> old | Some v \<Rightarrow> v)"

definition finalized :: "string \<Rightarrow> Metadata \<Rightarrow> ChatMessage \<Rightarrow> ChatMessage" where
  "finalized finalContent md msg =
     msg\<lparr> content := finalContent, isStreaming := Some False,
          queryType := spread (queryType_md md) (queryType msg),
          confidence := spread (confidence_md md) (confidence msg),
          sources := spread (sources_md md) (sources msg),
          calculations := spread (calculations_md md) (calculations msg),
          assumptions := spread (assumptions_md md) (assumptions msg),
          suggestedFollowups := spread (suggestedFollowups_md md) (suggestedFollowups msg) \<rparr>"

definition finalizeAssistantMessage ::
  "string \<Rightarrow> string \<Rightarrow> Metadata \<Rightarrow> SessionStore \<Rightarrow> SessionStore" where
  "finalizeAssistantMessage messageId finalContent md s =
     s\<lparr> messages :=
          map (\<lambda>msg. if id_msg msg = messageId then finalized finalContent md msg else msg)
            (messages s),
        isAgentThinking := False,
        streamingContent := [] \<rparr>"

text \<open>\<^verbatim>\<open>Array.prototype.findIndex\<close>: the first position whose element satisfies the
  predicate, \<open>None\<close> for the result \<open>-1\<close>.\<close>

fun findIndex :: "('a \<Rightarrow> bool) \<Rightarrow> 'a list \<Rightarrow> nat option" where
  "findIndex P [] = None"
| "findIndex P (x # xs) =
     (if P x then Some 0 else map_option Suc (findIndex P xs))"

definition addReasoningStep :: "ReasoningStep \<Rightarrow> SessionStore \<Rightarrow> SessionStore" where
  "addReasoningStep step s =
     s\<lparr> reasoningSteps :=
          (case findIndex (\<lambda>t. stepIndex t = stepIndex step) (reasoningSteps s) of
             Some existing \<Rightarrow> (reasoningSteps s)[existing := step]
           | None \<Rightarrow> reasoningSteps s @ [step]) \<rparr>"

definition setPendingClarification ::
  "ClarificationRequestPayload option \<Rightarrow> nat \<Rightarrow> SessionStore \<Rightarrow> SessionStore" where
  "setPendingClarification req now s =
     (case req of
        Some r \<Rightarrow>
          s\<lparr> pendingClarification := Some \<lparr> request = r, receivedAt = Date_clock now \<rparr>,
             isAgentThinking := False \<rparr>
      | None \<Rightarrow> s\<lparr> pendingClarification := None \<rparr>)"

definition setAuthenticated :: "string \<Rightarrow> string \<Rightarrow> SessionStore \<Rightarrow> SessionStore" where
  "setAuthenticated userId email s =
     s\<lparr> isAuthenticated := True, currentUserId := Some userId,
        currentUserEmail := Some email \<rparr>"

definition clearAuth :: "SessionStore \<Rightarrow> SessionStore" where
  "clearAuth s =
     setSessions []
       (setCurrentSession None
          (s\<lparr> isAuthenticated := False, currentUserId := None, currentUserEmail := None \<rparr>))"

section \<open>The connection manager (WebSocketService)\<close>

text \<open>
  The stream \<^verbatim>\<open>webSocket({ url, ... })\<close> returns is identified by the session identifier
  and the credential its address is built from (\<^verbatim>\<open>buildWsUrl(sessionId, token)\<close>).
\<close>

datatype WebSocketSubject = WebSocketSubject (url_sessionId: string) (url_token: string)

text \<open>
  The first six fields are the fields of the class (\<open>store\<close> is the injected
  \<^verbatim>\<open>SessionStore\<close>, \<open>socket\<close> is \<^verbatim>\<open>socket$\<close>, \<open>pingInterval\<close> holds the period of the
  armed interval). The other fields record what the service does to its surroundings:
  \<^item> \<open>created\<close>: every stream made by \<^verbatim>\<open>webSocket(...)\<close>, in order;
  \<^item> \<open>completed\<close>: every stream closed by \<^verbatim>\<open>socket$.complete()\<close>;
  \<^item> \<open>sent\<close>: every envelope handed to \<^verbatim>\<open>socket$.next(...)\<close>;
  \<^item> \<open>timers\<close>: the delays of the reconnection timers that are scheduled and have not
    fired (\<^verbatim>\<open>timer(delay).pipe(takeUntil(this.destroy$))\<close>);
  \<^item> \<open>published\<close>: every envelope re-published on \<^verbatim>\<open>messages$\<close>;
  \<^item> \<open>historyRequests\<close>: the sessions whose message history was requested.
\<close>

record WebSocketService =
  store :: SessionStore
  socket :: "WebSocketSubject option"
  reconnectAttempts :: nat
  pingInterval :: "nat option"
  currentSessionId_ws :: "string option"
  currentMessageId :: "string option"
  created :: "WebSocketSubject list"
  completed :: "WebSocketSubject list"
  sent :: "ClientMessage list"
  timers :: "nat list"
  published :: "ServerMessage list"
  historyRequests :: "string list"

definition maxReconnectAttempts :: nat where
  "maxReconnectAttempts = 5"

definition initialService :: WebSocketService where
  "initialService =
     \<lparr> store = initialStore, socket = None, reconnectAttempts = 0, pingInterval = None,
       currentSessionId_ws = None, currentMessageId = None, created = [], completed = [],
       sent = [], timers = [], published = [], historyRequests = [] \<rparr>"

text \<open>A \<^verbatim>\<open>string | null\<close> used as a condition: \<^verbatim>\<open>null\<close> and the empty string are falsy.\<close>

definition truthy :: "string option \<Rightarrow> bool" where
  "truthy v = (case v of None \<Rightarrow> False | Some x \<Rightarrow> x \<noteq> [])"

definition stopPingInterval :: "WebSocketService \<Rightarrow> WebSocketService" where
  "stopPingInterval w = (if pingInterval w \<noteq> None then w\<lparr> pingInterval := None \<rparr> else w)"

definition startPingInterval :: "WebSocketService \<Rightarrow> WebSocketService" where
  "startPingInterval w = (stopPingInterval w)\<lparr> pingInterval := Some 30000 \<rparr>"

text \<open>The body of the interval's callback.\<close>

definition pingCallback :: "WebSocketService \<Rightarrow> WebSocketService" where
  "pingCallback w = (if socket w \<noteq> None then w\<lparr> sent := sent w @ [Ping] \<rparr> else w)"

definition disconnect :: "WebSocketService \<Rightarrow> WebSocketService" where
  "disconnect w =
     (let w1 = stopPingInterval w;
          w2 = (case socket w1 of
                  Some sk \<Rightarrow> w1\<lparr> completed := completed w1 @ [sk], socket := None \<rparr>
                | None \<Rightarrow> w1);
          w3 = w2\<lparr> currentSessionId_ws := None \<rparr>
      in w3\<lparr> store := setConnectionStatus Disconnected None (store w3) \<rparr>)"

text \<open>
  \<^verbatim>\<open>connect\<close> up to the creation of the stream and the subscription. What the observers
  it installs do when the transport opens, closes or fails is \<open>onOpen\<close>, \<open>onClose\<close> and
  \<open>onStreamError\<close> below; what the subscription does with a frame is \<open>handleMessage\<close>.
\<close>

definition connect :: "string \<Rightarrow> string \<Rightarrow> WebSocketService \<Rightarrow> WebSocketService" where
  "connect sessionId token w =
     (let w1 = (if socket w \<noteq> None then disconnect w else w);
          w2 = w1\<lparr> currentSessionId_ws := Some sessionId \<rparr>;
          w3 = w2\<lparr> store := setConnectionStatus Connecting None (store w2) \<rparr>;
          sk = WebSocketSubject sessionId token
      in w3\<lparr> socket := Some sk, created := created w3 @ [sk] \<rparr>)"

text \<open>
  The callback of the reconnection timer. Its argument is what
  \<^verbatim>\<open>localStorage.getItem('access_token')\<close> returns when the timer fires.
\<close>

definition retryCallback :: "string option \<Rightarrow> WebSocketService \<Rightarrow> WebSocketService" where
  "retryCallback token w =
     (case (token, currentSessionId_ws w) of
        (Some t, Some sessionId) \<Rightarrow>
          if t \<noteq> [] \<and> sessionId \<noteq> [] then connect sessionId t w else w
      | _ \<Rightarrow> w)"

definition handleDisconnect :: "WebSocketService \<Rightarrow> WebSocketService" where
  "handleDisconnect w =
     (if reconnectAttempts w < maxReconnectAttempts \<and> truthy (currentSessionId_ws w) then
        let w1 = w\<lparr> reconnectAttempts := reconnectAttempts w + 1 \<rparr>;
            delay = min (1000 * 2 ^ reconnectAttempts w1) 30000
        in w1\<lparr> timers := timers w1 @ [delay] \<rparr>
      else
        w\<lparr> store := setConnectionStatus Error
                (Some ''Connection failed after multiple attempts'') (store w) \<rparr>)"

text \<open>\<^verbatim>\<open>openObserver.next\<close>, \<^verbatim>\<open>closeObserver.next\<close> (its argument is \<^verbatim>\<open>event.wasClean\<close>) and
  the \<^verbatim>\<open>catchError\<close> handler (its argument is \<^verbatim>\<open>error.message\<close>).\<close>

definition onOpen :: "WebSocketService \<Rightarrow> WebSocketService" where
  "onOpen w = startPingInterval (w\<lparr> reconnectAttempts := 0 \<rparr>)"

definition onClose :: "bool \<Rightarrow> WebSocketService \<Rightarrow> WebSocketService" where
  "onClose wasClean w =
     (let w1 = stopPingInterval w
      in if wasClean then w1\<lparr> store := setConnectionStatus Disconnected None (store w1) \<rparr>
         else handleDisconnect w1)"

definition onStreamError :: "string option \<Rightarrow> WebSocketService \<Rightarrow> WebSocketService" where
  "onStreamError msg w = w\<lparr> store := setConnectionStatus Error msg (store w) \<rparr>"

subsection \<open>Sending\<close>

text \<open>\<open>uuid1\<close>, \<open>now1\<close> are the identifier and clock reading \<^verbatim>\<open>addUserMessage\<close> draws,
  \<open>uuid2\<close>, \<open>now2\<close> those of \<^verbatim>\<open>startAssistantMessage\<close>.\<close>

definition sendQuery ::
  "string \<Rightarrow> bool \<Rightarrow> string \<Rightarrow> nat \<Rightarrow> string \<Rightarrow> nat \<Rightarrow> WebSocketService \<Rightarrow> WebSocketService" where
  "sendQuery text includeReasoning uuid1 now1 uuid2 now2 w =
     (if socket w = None \<or> wsStatus (store w) \<noteq> Connected then w
      else
        let (userId, s1) = addUserMessage text uuid1 now1 (store w);
            w1 = w\<lparr> currentMessageId := Some userId, store := s1 \<rparr>;
            w2 = w1\<lparr> store := snd (startAssistantMessage uuid2 now2 (store w1)) \<rparr>;
            payload = QueryPayload text (Some includeReasoning)
        in w2\<lparr> sent := sent w2 @ [Query payload] \<rparr>)"

definition sendClarificationResponse ::
  "string \<Rightarrow> string \<Rightarrow> string option \<Rightarrow> string \<Rightarrow> nat \<Rightarrow> WebSocketService \<Rightarrow> WebSocketService" where
  "sendClarificationResponse questionId val txt uuid now w =
     (if socket w = None \<or> wsStatus (store w) \<noteq> Connected then w
      else
        let w1 = w\<lparr> store := setPendingClarification None now (store w) \<rparr>;
            w2 = w1\<lparr> store := snd (startAssistantMessage uuid now (store w1)) \<rparr>;
            payload = ClarificationResponsePayload questionId val txt
        in w2\<lparr> sent := sent w2 @ [Clarification_response payload] \<rparr>)"

definition sendCancel :: "WebSocketService \<Rightarrow> WebSocketService" where
  "sendCancel w = (if socket w = None then w else w\<lparr> sent := sent w @ [Cancel] \<rparr>)"

subsection \<open>The message dispatcher\<close>

definition handleConnected :: "ConnectedPayload \<Rightarrow> WebSocketService \<Rightarrow> WebSocketService" where
  "handleConnected payload w =
     (let w1 = w\<lparr> store := setConnectionStatus Connected None (store w) \<rparr>;
          w2 = w1\<lparr> store := updateContextVersion (context_version_cn payload) (store w1) \<rparr>
      in case currentSessionId_ws w2 of
           Some sessionId \<Rightarrow>
             if sessionId \<noteq> [] then w2\<lparr> historyRequests := historyRequests w2 @ [sessionId] \<rparr>
             else w2
         | None \<Rightarrow> w2)"

definition handleReasoningStep ::
  "ReasoningStepPayload \<Rightarrow> WebSocketService \<Rightarrow> WebSocketService" where
  "handleReasoningStep payload w =
     w\<lparr> store := addReasoningStep
            \<lparr> stepIndex = step_index payload, node = node_rs payload,
              status = status_rs payload, message = message_rs payload,
              timestamp = Date_of_string (timestamp_rs payload) \<rparr>
            (store w) \<rparr>"

definition handleToken :: "TokenPayload \<Rightarrow> WebSocketService \<Rightarrow> WebSocketService" where
  "handleToken payload w = w\<lparr> store := appendToStreamingContent (chunk payload) (store w) \<rparr>"

text \<open>\<^verbatim>\<open>chunks.join('')\<close> is \<open>concat\<close>.\<close>

definition handleTokens :: "TokensPayload \<Rightarrow> WebSocketService \<Rightarrow> WebSocketService" where
  "handleTokens payload w =
     (let combined = concat (chunks payload)
      in w\<lparr> store := appendToStreamingContent combined (store w) \<rparr>)"

definition handleClarificationRequest ::
  "ClarificationRequestPayload \<Rightarrow> nat \<Rightarrow> WebSocketService \<Rightarrow> WebSocketService" where
  "handleClarificationRequest payload now w =
     w\<lparr> store := setPendingClarification (Some payload) now (store w) \<rparr>"

definition handleCalculation :: "CalculationPayload \<Rightarrow> WebSocketService \<Rightarrow> WebSocketService" where
  "handleCalculation payload w = w"

definition handleContextUpdated ::
  "ContextUpdatedPayload \<Rightarrow> WebSocketService \<Rightarrow> WebSocketService" where
  "handleContextUpdated payload w =
     w\<lparr> store := updateContextVersion (version payload) (store w) \<rparr>"

text \<open>\<^verbatim>\<open>messages[messages.length - 1]\<close> is \<^verbatim>\<open>undefined\<close> on the empty list, and the
  condition \<^verbatim>\<open>lastMessage && ...\<close> is then false.\<close>

definition handleResponseComplete ::
  "ResponseCompletePayload \<Rightarrow> WebSocketService \<Rightarrow> WebSocketService" where
  "handleResponseComplete payload w =
     (let msgs = messages (store w)
      in if msgs \<noteq> [] \<and> role (last msgs) = Assistant then
           w\<lparr> store := finalizeAssistantMessage (id_msg (last msgs)) (final_answer payload)
                  \<lparr> queryType_md = Some (Some (query_type payload)),
                    confidence_md = Some (Some (confidence_rc payload)),
                    sources_md = Some (Some (sources_rc payload)),
                    calculations_md = Some (Some (calculations_rc payload)),
                    assumptions_md = Some (Some (assumptions_rc payload)),
                    suggestedFollowups_md = Some (Some (suggested_followups payload)) \<rparr>
                  (store w) \<rparr>
         else w)"

definition handleError :: "ErrorPayload \<Rightarrow> WebSocketService \<Rightarrow> WebSocketService" where
  "handleError payload w =
     (let w1 = w\<lparr> store := setConnectionStatus Error (Some (message_er payload)) (store w) \<rparr>
      in if \<not> recoverable payload then disconnect w1 else w1)"

text \<open>\<open>now\<close> is the clock reading \<^verbatim>\<open>setPendingClarification\<close> takes for \<^verbatim>\<open>receivedAt\<close>.\<close>

definition handleMessage :: "ServerMessage \<Rightarrow> nat \<Rightarrow> WebSocketService \<Rightarrow> WebSocketService" where
  "handleMessage msg now w =
     (let w1 = w\<lparr> published := published w @ [msg] \<rparr>
      in case msg of
           Connected_msg p \<Rightarrow> handleConnected p w1
         | Reasoning_step p \<Rightarrow> handleReasoningStep p w1
         | Token p \<Rightarrow> handleToken p w1
         | Tokens p \<Rightarrow> handleTokens p w1
         | Clarification_request p \<Rightarrow> handleClarificationRequest p now w1
         | Calculation p \<Rightarrow> handleCalculation p w1
         | Context_updated p \<Rightarrow> handleContextUpdated p w1
         | Response_complete p \<Rightarrow> handleResponseComplete p w1
         | Error_msg p \<Rightarrow> handleError p w1
         | Pong \<Rightarrow> w1)"

text \<open>\<^verbatim>\<open>ngOnDestroy\<close>: \<^verbatim>\<open>destroy$\<close> fires, which ends every pending reconnection timer
  (\<^verbatim>\<open>takeUntil(this.destroy$)\<close>), then \<^verbatim>\<open>disconnect()\<close>.\<close>

definition ngOnDestroy :: "WebSocketService \<Rightarrow> WebSocketService" where
  "ngOnDestroy w = disconnect (w\<lparr> timers := [] \<rparr>)"

section \<open>Events\<close>

text \<open>
  Everything runs on one thread: a user action, a socket callback or a timer runs to
  completion before the next. A run of the client is a list of such events.

  The runtime calls a timer's callback only while the timer is pending, and an interval's
  only while the interval is armed: \<open>timerFired i token\<close> fires the \<open>i\<close>-th pending
  reconnection timer (and is nothing when there is none), \<open>intervalFired\<close> is one tick of
  the keepalive interval.
\<close>

definition timerFired :: "nat \<Rightarrow> string option \<Rightarrow> WebSocketService \<Rightarrow> WebSocketService" where
  "timerFired i token w =
     (if i < length (timers w) then
        retryCallback token (w\<lparr> timers := take i (timers w) @ drop (Suc i) (timers w) \<rparr>)
      else w)"

definition intervalFired :: "WebSocketService \<Rightarrow> WebSocketService" where
  "intervalFired w = (if pingInterval w \<noteq> None then pingCallback w else w)"

text \<open>The mutating operations of the store, as values.\<close>

datatype StoreOp =
    SetCurrentSession "string option"
  | SetSessions "SessionListItem list"
  | AddSession SessionListItem
  | RemoveSession string
  | SetConnectionStatus ConnectionStatus "string option"
  | SetDrawingContext "DrawingObject list" ContextMetadata
  | UpdateContextVersion int
  | ClearDrawingState
  | AddUserMessage string string nat
  | StartAssistantMessage string nat
  | AppendToStreamingContent string
  | FinalizeAssistantMessage string string Metadata
  | AddReasoningStep ReasoningStep
  | SetPendingClarification "ClarificationRequestPayload option" nat
  | ClearChatState
  | SetAuthenticated string string
  | ClearAuth

fun storeOp :: "StoreOp \<Rightarrow> SessionStore \<Rightarrow> SessionStore" where
  "storeOp (SetCurrentSession sid) s = setCurrentSession sid s"
| "storeOp (SetSessions ss) s = setSessions ss s"
| "storeOp (AddSession item) s = addSession item s"
| "storeOp (RemoveSession sid) s = removeSession sid s"
| "storeOp (SetConnectionStatus st err) s = setConnectionStatus st err s"
| "storeOp (SetDrawingContext objects md) s = setDrawingContext objects md s"
| "storeOp (UpdateContextVersion v) s = updateContextVersion v s"
| "storeOp ClearDrawingState s = clearDrawingState s"
| "storeOp (AddUserMessage text uuid now) s = snd (addUserMessage text uuid now s)"
| "storeOp (StartAssistantMessage uuid now) s = snd (startAssistantMessage uuid now s)"
| "storeOp (AppendToStreamingContent c) s = appendToStreamingContent c s"
| "storeOp (FinalizeAssistantMessage mid text md) s = finalizeAssistantMessage mid text md s"
| "storeOp (AddReasoningStep step) s = addReasoningStep step s"
| "storeOp (SetPendingClarification req now) s = setPendingClarification req now s"
| "storeOp ClearChatState s = clearChatState s"
| "storeOp (SetAuthenticated userId email) s = setAuthenticated userId email s"
| "storeOp ClearAuth s = clearAuth s"

text \<open>A store operation called by any component, a call of the service, or a callback
  of the transport, of a timer or of the framework.\<close>

datatype Event =
    Store_op StoreOp
  | Connect string string
  | Disconnect
  | SendQuery string bool string nat string nat
  | SendClarificationResponse string string "string option" string nat
  | SendCancel
  | Opened
  | Closed bool
  | StreamError "string option"
  | Frame ServerMessage nat
  | TimerFired nat "string option"
  | IntervalFired
  | Destroyed

fun step :: "Event \<Rightarrow> WebSocketService \<Rightarrow> WebSocketService" where
  "step (Store_op x) w = w\<lparr> store := storeOp x (store w) \<rparr>"
| "step (Connect sessionId token) w = connect sessionId token w"
| "step Disconnect w = disconnect w"
| "step (SendQuery text r uuid1 now1 uuid2 now2) w = sendQuery text r uuid1 now1 uuid2 now2 w"
| "step (SendClarificationResponse q v t uuid now) w = sendClarificationResponse q v t uuid now w"
| "step SendCancel w = sendCancel w"
| "step Opened w = onOpen w"
| "step (Closed wasClean) w = onClose wasClean w"
| "step (StreamError msg) w = onStreamError msg w"
| "step (Frame msg now) w = handleMessage msg now w"
| "step (TimerFired i token) w = timerFired i token w"
| "step IntervalFired w = intervalFired w"
| "step Destroyed w = ngOnDestroy w"

definition run :: "Event list \<Rightarrow> WebSocketService \<Rightarrow> WebSocketService" where
  "run es w = foldl (\<lambda>v e. step e v) w es"

subsection \<open>Notions the properties are stated with\<close>

text \<open>The assistant messages that are streaming.\<close>

definition streamingMessages :: "SessionStore \<Rightarrow> ChatMessage list" where
  "streamingMessages s =
     filter (\<lambda>m. role m = Assistant \<and> isStreaming m = Some True) (messages s)"

text \<open>An event starts an assistant turn when it reaches \<^verbatim>\<open>startAssistantMessage\<close>.\<close>

fun startsTurn :: "Event \<Rightarrow> WebSocketService \<Rightarrow> bool" where
  "startsTurn (Store_op (StartAssistantMessage uuid now)) w = True"
| "startsTurn (SendQuery text r uuid1 now1 uuid2 now2) w =
     (socket w \<noteq> None \<and> wsStatus (store w) = Connected)"
| "startsTurn (SendClarificationResponse q v t uuid now) w =
     (socket w \<noteq> None \<and> wsStatus (store w) = Connected)"
| "startsTurn e w = False"

text \<open>
  A transport that keeps failing: the stream closes uncleanly, and each of the next \<open>k\<close>
  reconnection timers fires (the credential store holding \<open>token\<close>) only for the stream
  it opens to close uncleanly again.
\<close>

fun failingRetries :: "nat \<Rightarrow> string \<Rightarrow> Event list" where
  "failingRetries 0 token = [Closed False]"
| "failingRetries (Suc k) token =
     failingRetries k token @ [TimerFired 0 (Some token), Closed False]"

subsection \<open>Sample states\<close>

text \<open>A service that connected to session \<open>s1\<close>, whose stream opened and that received
  the \<^verbatim>\<open>connected\<close> envelope.\<close>

definition connectedService :: WebSocketService where
  "connectedService =
     run [Connect ''s1'' ''tok'', Opened,
          Frame (Connected_msg (ConnectedPayload ''s1'' False 0)) 0] initialService"

text \<open>The same service after the user asked \<open>hi\<close> and the first token arrived.\<close>

definition streamingTurn :: WebSocketService where
  "streamingTurn =
     run [SendQuery ''hi'' True ''u1'' 1 ''a1'' 2,
          Frame (Token (TokenPayload ''He'' ''answer'' 0)) 3] connectedService"

text \<open>A \<^verbatim>\<open>response_complete\<close> payload, and the service after it finalized the turn.\<close>

definition samplePayload :: ResponseCompletePayload where
  "samplePayload =
     ResponseCompletePayload ''m1'' ''Hello'' High ''general'' [] [] [] [''more?'']"

definition finalizedTurn :: WebSocketService where
  "finalizedTurn = step (Frame (Response_complete samplePayload) 4) streamingTurn"

text \<open>The connected service after its stream closed uncleanly: the first reconnection
  timer is pending.\<close>

definition pendingRetry :: WebSocketService where
  "pendingRetry = step (Closed False) connectedService"

text \<open>A turn in which the server asks for a clarification and the user answers it.\<close>

definition clarifiedTurn :: "Event list" where
  "clarifiedTurn =
     [Connect ''s1'' ''tok'', Opened,
      Frame (Connected_msg (ConnectedPayload ''s1'' False 0)) 0,
      SendQuery ''hi'' True ''u1'' 1 ''a1'' 2,
      Frame (Clarification_request
        (ClarificationRequestPayload ''q1'' ''Which house type?'' ''rule 3'' ''house_type''
           None 1 [])) 3,
      SendClarificationResponse ''q1'' ''detached'' None ''a2'' 4]"

text \<open>A turn the server answers directly.\<close>

definition answeredQuery :: "Event list" where
  "answeredQuery =
     [Connect ''s1'' ''tok'', Opened,
      Frame (Connected_msg (ConnectedPayload ''s1'' False 0)) 0,
      SendQuery ''hi'' True ''u1'' 1 ''a1'' 2,
      Frame (Token (TokenPayload ''He'' ''answer'' 0)) 3,
      Frame (Response_complete samplePayload) 4]"

text \<open>Three reasoning steps of a turn, with indices 1, 2 and 3; step 2 is still being
  processed.\<close>

definition threeSteps :: "Event list" where
  "threeSteps =
     [Frame (Reasoning_step (ReasoningStepPayload 1 ''classify'' Completed ''done'' ''t1'')) 1,
      Frame (Reasoning_step (ReasoningStepPayload 2 ''retrieve'' Processing ''busy'' ''t2'')) 2,
      Frame (Reasoning_step (ReasoningStepPayload 3 ''compute'' Processing ''busy'' ''t3'')) 3]"

section \<open>Evaluation\<close>

lemmas store_defs =
  initialStore_def clearChatState_def clearDrawingState_def setCurrentSession_def
  setSessions_def addSession_def removeSession_def setConnectionStatus_def
  setDrawingContext_def updateContextVersion_def addUserMessage_def
  startAssistantMessage_def appendToStreamingContent_def spread_def finalized_def
  finalizeAssistantMessage_def addReasoningStep_def setPendingClarification_def
  setAuthenticated_def clearAuth_def

lemmas service_defs =
  initialService_def maxReconnectAttempts_def truthy_def stopPingInterval_def
  startPingInterval_def pingCallback_def disconnect_def connect_def retryCallback_def
  handleDisconnect_def onOpen_def onClose_def onStreamError_def sendQuery_def
  sendClarificationResponse_def sendCancel_def handleConnected_def handleReasoningStep_def
  handleToken_def handleTokens_def handleClarificationRequest_def handleCalculation_def
  handleContextUpdated_def handleResponseComplete_def handleError_def handleMessage_def
  ngOnDestroy_def timerFired_def intervalFired_def run_def Let_def

text \<open>The definitions of the handlers and of the mutations, for the proofs by cases on
  the event.\<close>

lemmas handler_defs =
  maxReconnectAttempts_def truthy_def stopPingInterval_def startPingInterval_def
  pingCallback_def disconnect_def connect_def retryCallback_def handleDisconnect_def
  onOpen_def onClose_def onStreamError_def sendQuery_def sendClarificationResponse_def
  sendCancel_def handleConnected_def handleReasoningStep_def handleToken_def
  handleTokens_def handleClarificationRequest_def handleCalculation_def
  handleContextUpdated_def handleResponseComplete_def handleError_def handleMessage_def
  ngOnDestroy_def timerFired_def intervalFired_def Let_def

lemmas mutation_defs =
  clearChatState_def clearDrawingState_def setCurrentSession_def setSessions_def
  addSession_def removeSession_def setConnectionStatus_def setDrawingContext_def
  updateContextVersion_def addUserMessage_def startAssistantMessage_def
  appendToStreamingContent_def setPendingClarification_def setAuthenticated_def
  clearAuth_def

lemma run_Nil: "run [] w = w"
  by (simp add: run_def)

lemma run_Cons: "run (e # es) w = run es (step e w)"
  by (simp add: run_def)

lemma run_append: "run (xs @ ys) w = run ys (run xs w)"
  by (simp add: run_def)

lemma connectedService_eval:
  "connectedService =
     \<lparr> store = initialStore\<lparr> wsStatus := Connected \<rparr>,
       socket = Some (WebSocketSubject ''s1'' ''tok''), reconnectAttempts = 0,
       pingInterval = Some 30000, currentSessionId_ws = Some ''s1'', currentMessageId = None,
       created = [WebSocketSubject ''s1'' ''tok''], completed = [], sent = [], timers = [],
       published = [Connected_msg (ConnectedPayload ''s1'' False 0)],
       historyRequests = [''s1''] \<rparr>"
  by (simp add: connectedService_def service_defs store_defs)

lemma streamingTurn_store:
  "store streamingTurn =
     initialStore\<lparr> wsStatus := Connected,
       messages :=
         [\<lparr> id_msg = ''u1'', role = User, content = ''hi'', timestamp_msg = Date_clock 1,
            isStreaming = None, queryType = None, confidence = None, sources = None,
            calculations = None, assumptions = None, suggestedFollowups = None \<rparr>,
          \<lparr> id_msg = ''a1'', role = Assistant, content = [], timestamp_msg = Date_clock 2,
            isStreaming = Some True, queryType = None, confidence = None, sources = None,
            calculations = None, assumptions = None, suggestedFollowups = None \<rparr>],
       isAgentThinking := True, streamingContent := ''He'' \<rparr>"
  by (simp add: streamingTurn_def connectedService_eval service_defs store_defs)

section \<open>Streaming tokens\<close>

lemma store_handleToken:
  "store (handleMessage (Token p) now w) = appendToStreamingContent (chunk p) (store w)"
  by (simp add: handleMessage_def handleToken_def)

lemma store_handleTokens:
  "store (handleMessage (Tokens p) now w) =
     appendToStreamingContent (concat (chunks p)) (store w)"
  by (simp add: handleMessage_def handleTokens_def)

text \<open>A run of \<^verbatim>\<open>token\<close> frames changes the store as one append of the concatenated
  chunks does: induction on the frames, the service generalised.\<close>

lemma store_run_tokens:
  "store (run (map (\<lambda>(p, now). Frame (Token p) now) ps) w) =
     appendToStreamingContent (concat (map (\<lambda>(p, now). chunk p) ps)) (store w)"
proof (induction ps arbitrary: w)
  case Nil
  show ?case by (simp add: run_Nil appendToStreamingContent_def)
next
  case (Cons a ps)
  obtain p now where a: "a = (p, now)" by (cases a)
  show ?case
    by (simp add: a run_Cons Cons.IH store_handleToken appendToStreamingContent_def)
qed

text \<open>
  C2. For every finite sequence of \<^verbatim>\<open>token\<close> envelopes (each with its payload and the
  clock reading at its arrival) processed in order, the streaming accumulator afterwards
  is the accumulator before followed by the chunks in arrival order; started from the
  empty accumulator, it is exactly the concatenation of the chunks.
\<close>

theorem token_accumulation:
  "streamingContent (store (run (map (\<lambda>(p, now). Frame (Token p) now) ps) w)) =
     streamingContent (store w) @ concat (map (\<lambda>(p, now). chunk p) ps)
   \<and> streamingContent (store (run (map (\<lambda>(p, now). Frame (Token p) now) ps)
        (w\<lparr> store := (store w)\<lparr> streamingContent := [] \<rparr> \<rparr>))) =
     concat (map (\<lambda>(p, now). chunk p) ps)"
  by (simp add: store_run_tokens appendToStreamingContent_def)

text \<open>
  C3. For every list of \<^verbatim>\<open>token\<close> envelopes and every service state (so every starting
  accumulator), one \<^verbatim>\<open>tokens\<close> envelope carrying their chunks leaves the same store,
  hence the same accumulator, as the \<^verbatim>\<open>token\<close> envelopes processed one at a time in
  order; the \<^verbatim>\<open>tokens\<close> handler changes the store by a single
  \<^verbatim>\<open>appendToStreamingContent\<close> of the joined chunks; and \<open>["ab", "cd"]\<close> is the same as
  \<open>"ab"\<close> then \<open>"cd"\<close>.
\<close>

theorem tokens_equals_token_sequence:
  "store (step (Frame (Tokens (TokensPayload (map (\<lambda>(p, now). chunk p) ps) nd)) now') w) =
     store (run (map (\<lambda>(p, now). Frame (Token p) now) ps) w)
   \<and> store (handleMessage (Tokens tp) now' w) =
       appendToStreamingContent (concat (chunks tp)) (store w)
   \<and> streamingContent
       (store (step (Frame (Tokens (TokensPayload [''ab'', ''cd''] nd)) now') w)) =
     streamingContent
       (store (run [Frame (Token (TokenPayload ''ab'' n1 i1)) t1,
                    Frame (Token (TokenPayload ''cd'' n2 i2)) t2] w))"
  by (simp add: store_run_tokens store_handleTokens store_handleToken run_Cons run_Nil
      appendToStreamingContent_def)

section \<open>Sending\<close>





section \<open>Finalizing a message\<close>

text \<open>
  C10. When no message of the list carries \<open>messageId\<close>,
  \<^verbatim>\<open>finalizeAssistantMessage(messageId, content, metadata)\<close> changes nothing of the store
  but the thinking flag, which becomes false, and the streaming accumulator, which
  becomes empty: the messages list is as before.
\<close>

theorem finalize_unknown_id:
  "\<forall>m \<in> set (messages s). id_msg m \<noteq> messageId \<Longrightarrow>
     finalizeAssistantMessage messageId finalContent md s =
       s\<lparr> isAgentThinking := False, streamingContent := [] \<rparr>"
proof -
  assume h: "\<forall>m \<in> set (messages s). id_msg m \<noteq> messageId"
  have "map (\<lambda>msg. if id_msg msg = messageId then finalized finalContent md msg else msg)
          (messages s) = messages s"
    using h by (simp add: map_idI)
  then show ?thesis by (simp add: finalizeAssistantMessage_def)
qed

theorem finalize_unknown_id_witness:
  "''zz'' \<notin> set (map id_msg (messages (store streamingTurn)))
   \<and> messages (finalizeAssistantMessage ''zz'' ''done''
        \<lparr> queryType_md = None, confidence_md = None, sources_md = None,
          calculations_md = None, assumptions_md = None, suggestedFollowups_md = None \<rparr>
        (store streamingTurn)) = messages (store streamingTurn)
   \<and> isAgentThinking (store streamingTurn)
   \<and> \<not> isAgentThinking (finalizeAssistantMessage ''zz'' ''done''
        \<lparr> queryType_md = None, confidence_md = None, sources_md = None,
          calculations_md = None, assumptions_md = None, suggestedFollowups_md = None \<rparr>
        (store streamingTurn))
   \<and> streamingContent (store streamingTurn) = ''He''
   \<and> streamingContent (finalizeAssistantMessage ''zz'' ''done''
        \<lparr> queryType_md = None, confidence_md = None, sources_md = None,
          calculations_md = None, assumptions_md = None, suggestedFollowups_md = None \<rparr>
        (store streamingTurn)) = []"
proof -
  have h: "\<forall>m \<in> set (messages (store streamingTurn)). id_msg m \<noteq> ''zz''"
    by (simp add: streamingTurn_store)
  show ?thesis
    using h finalize_unknown_id [OF h, of "''done''"
        "\<lparr> queryType_md = None, confidence_md = None, sources_md = None,
          calculations_md = None, assumptions_md = None, suggestedFollowups_md = None \<rparr>"]
    by (simp add: streamingTurn_store)
qed

section \<open>Completing a response\<close>

lemma finalizedTurn_store:
  "store finalizedTurn =
     initialStore\<lparr> wsStatus := Connected,
       messages :=
         [\<lparr> id_msg = ''u1'', role = User, content = ''hi'', timestamp_msg = Date_clock 1,
            isStreaming = None, queryType = None, confidence = None, sources = None,
            calculations = None, assumptions = None, suggestedFollowups = None \<rparr>,
          \<lparr> id_msg = ''a1'', role = Assistant, content = ''Hello'',
            timestamp_msg = Date_clock 2, isStreaming = Some False,
            queryType = Some ''general'', confidence = Some High, sources = Some [],
            calculations = Some [], assumptions = Some [],
            suggestedFollowups = Some [''more?''] \<rparr>],
       isAgentThinking := False, streamingContent := [] \<rparr>"
  by (simp add: finalizedTurn_def samplePayload_def streamingTurn_store handleMessage_def
      handleResponseComplete_def finalizeAssistantMessage_def finalized_def spread_def Let_def
      initialStore_def)

lemma finalize_messages_length:
  "length (messages (finalizeAssistantMessage i c md s)) = length (messages s)"
  by (simp add: finalizeAssistantMessage_def)

lemma finalize_last:
  "messages s \<noteq> [] \<Longrightarrow>
   last (messages (finalizeAssistantMessage (id_msg (last (messages s))) c md s)) =
     finalized c md (last (messages s))"
  by (simp add: finalizeAssistantMessage_def last_map)

lemma finalize_other:
  "i < length (messages s) \<Longrightarrow> id_msg (messages s ! i) \<noteq> k \<Longrightarrow>
   messages (finalizeAssistantMessage k c md s) ! i = messages s ! i"
  by (simp add: finalizeAssistantMessage_def)

text \<open>
  C4, as the claim states it, fails. The handler tests the role of the last message
  only, not its \<^verbatim>\<open>isStreaming\<close> flag: in \<open>finalizedTurn\<close> the last message is an assistant
  message that is no longer streaming, and a second \<^verbatim>\<open>response_complete\<close> rewrites it.
\<close>

theorem response_complete_rewrites_finalized_message:
  "role (last (messages (store finalizedTurn))) = Assistant
   \<and> isStreaming (last (messages (store finalizedTurn))) = Some False
   \<and> messages (store (handleResponseComplete
        (ResponseCompletePayload ''m2'' ''Changed'' Low ''other'' [] [] [] []) finalizedTurn))
       \<noteq> messages (store finalizedTurn)"
  by (simp add: finalizedTurn_store handleResponseComplete_def finalizeAssistantMessage_def
      finalized_def spread_def Let_def initialStore_def)

text \<open>
  C4, amended. A \<^verbatim>\<open>response_complete\<close> envelope changes nothing at all when the
  messages list is empty or its last message is not an assistant message. When the last
  message is an assistant message, streaming or not, the handler finalizes it: the last
  message gets the final content, \<^verbatim>\<open>isStreaming = false\<close> and the six metadata of the
  payload; the list keeps its length; every message with another id is as before; the
  thinking flag is cleared and the streaming accumulator is empty.
\<close>

theorem response_complete_effect:
  "(messages (store w) = [] \<or> role (last (messages (store w))) \<noteq> Assistant \<longrightarrow>
      handleResponseComplete payload w = w)
   \<and> (messages (store w) \<noteq> [] \<and> role (last (messages (store w))) = Assistant \<longrightarrow>
        last (messages (store (handleResponseComplete payload w))) =
          (last (messages (store w)))
            \<lparr> content := final_answer payload, isStreaming := Some False,
              queryType := Some (query_type payload),
              confidence := Some (confidence_rc payload),
              sources := Some (sources_rc payload),
              calculations := Some (calculations_rc payload),
              assumptions := Some (assumptions_rc payload),
              suggestedFollowups := Some (suggested_followups payload) \<rparr>
      \<and> length (messages (store (handleResponseComplete payload w))) =
          length (messages (store w))
      \<and> (\<forall>i < length (messages (store w)).
            id_msg (messages (store w) ! i) \<noteq> id_msg (last (messages (store w))) \<longrightarrow>
            messages (store (handleResponseComplete payload w)) ! i = messages (store w) ! i)
      \<and> \<not> isAgentThinking (store (handleResponseComplete payload w))
      \<and> streamingContent (store (handleResponseComplete payload w)) = [])"
proof -
  have a: "messages (store w) = [] \<or> role (last (messages (store w))) \<noteq> Assistant \<Longrightarrow>
      handleResponseComplete payload w = w"
    by (auto simp add: handleResponseComplete_def Let_def)
  have b: "store (handleResponseComplete payload w) =
      finalizeAssistantMessage (id_msg (last (messages (store w)))) (final_answer payload)
        \<lparr> queryType_md = Some (Some (query_type payload)),
          confidence_md = Some (Some (confidence_rc payload)),
          sources_md = Some (Some (sources_rc payload)),
          calculations_md = Some (Some (calculations_rc payload)),
          assumptions_md = Some (Some (assumptions_rc payload)),
          suggestedFollowups_md = Some (Some (suggested_followups payload)) \<rparr> (store w)"
    if "messages (store w) \<noteq> []" "role (last (messages (store w))) = Assistant"
    using that by (simp add: handleResponseComplete_def Let_def)
  show ?thesis
    using a
    by (auto simp add: b finalize_last finalize_other finalize_messages_length finalized_def
        spread_def)
      (simp_all add: finalizeAssistantMessage_def)
qed

theorem response_complete_effect_witness:
  "messages (store streamingTurn) \<noteq> []
   \<and> role (last (messages (store streamingTurn))) = Assistant
   \<and> content (last (messages (store (handleResponseComplete samplePayload streamingTurn)))) =
       ''Hello''
   \<and> isStreaming (last (messages (store (handleResponseComplete samplePayload streamingTurn)))) =
       Some False
   \<and> messages (store (handleResponseComplete samplePayload streamingTurn)) ! 0 =
       messages (store streamingTurn) ! 0
   \<and> \<not> isAgentThinking (store (handleResponseComplete samplePayload streamingTurn))
   \<and> streamingContent (store (handleResponseComplete samplePayload streamingTurn)) = []
   \<and> messages (store connectedService) = []
   \<and> handleResponseComplete samplePayload connectedService = connectedService"
proof -
  have h1: "messages (store streamingTurn) \<noteq> []"
    by (simp add: streamingTurn_store)
  have h2: "role (last (messages (store streamingTurn))) = Assistant"
    by (simp add: streamingTurn_store)
  note T = response_complete_effect [of streamingTurn samplePayload, THEN conjunct2, THEN mp,
      OF conjI [OF h1 h2]]
  note T0 = T [THEN conjunct2, THEN conjunct2, THEN conjunct1, THEN spec, of 0]
  show ?thesis
    using h1 h2 T T0 response_complete_effect [of connectedService samplePayload]
    by (simp add: streamingTurn_store connectedService_eval samplePayload_def initialStore_def)
qed

section \<open>Server-sent errors\<close>

lemma handleError_recoverable:
  "recoverable p \<Longrightarrow>
   handleError p w =
     w\<lparr> store := (store w)\<lparr> wsStatus := Error, wsError := Some (message_er p) \<rparr> \<rparr>"
  by (simp add: handleError_def setConnectionStatus_def)

text \<open>After a non-recoverable error the stream is completed, the session binding and the
  keepalive interval are gone, no timer is scheduled, and \<^verbatim>\<open>disconnect()\<close> has
  overwritten both the status and the error message.\<close>

lemma handleError_nonrecoverable:
  "\<not> recoverable p \<Longrightarrow>
   handleError p w =
     w\<lparr> store := (store w)\<lparr> wsStatus := Disconnected, wsError := None \<rparr>,
        socket := None, pingInterval := None, currentSessionId_ws := None,
        completed :=
          (case socket w of Some sk \<Rightarrow> completed w @ [sk] | None \<Rightarrow> completed w) \<rparr>"
  by (simp add: handleError_def disconnect_def stopPingInterval_def setConnectionStatus_def
      Let_def split: option.split)

text \<open>
  C5. The claim says that after every \<^verbatim>\<open>error\<close> envelope \<open>wsError\<close> holds the envelope's
  message. On the connected service an envelope with \<^verbatim>\<open>recoverable = false\<close> leaves
  \<open>wsError\<close> empty and the status \<open>disconnected\<close>: the handler stores the message and
  then calls \<^verbatim>\<open>disconnect()\<close>, whose \<^verbatim>\<open>setConnectionStatus('disconnected')\<close> clears it.
  The same envelope with \<^verbatim>\<open>recoverable = true\<close> keeps the message.
\<close>

theorem nonrecoverable_error_message_lost:
  "wsError (store (step (Frame (Error_msg (ErrorPayload ''FATAL'' ''boom'' False)) 5)
      connectedService)) = None
   \<and> wsStatus (store (step (Frame (Error_msg (ErrorPayload ''FATAL'' ''boom'' False)) 5)
      connectedService)) = Disconnected
   \<and> wsError (store (step (Frame (Error_msg (ErrorPayload ''BUSY'' ''boom'' True)) 5)
      connectedService)) = Some ''boom''"
  by (simp add: connectedService_eval service_defs store_defs)

section \<open>The reasoning trace\<close>

lemma findIndex_None_iff: "findIndex P xs = None \<longleftrightarrow> (\<forall>x \<in> set xs. \<not> P x)"
  by (induction xs) auto

lemma findIndex_key_None:
  "findIndex (\<lambda>t. f t = k) xs = None \<longleftrightarrow> k \<notin> set (map f xs)"
  by (induction xs) auto

lemma findIndex_Some:
  "findIndex P xs = Some i \<Longrightarrow> i < length xs \<and> P (xs ! i) \<and> (\<forall>j < i. \<not> P (xs ! j))"
proof (induction xs arbitrary: i)
  case Nil
  then show ?case by simp
next
  case (Cons x xs)
  show ?case
  proof (cases "P x")
    case True
    with Cons.prems show ?thesis by simp
  next
    case False
    with Cons.prems obtain j where j: "findIndex P xs = Some j" "i = Suc j"
      by auto
    from Cons.IH [OF j(1)] False j(2) show ?thesis
      by (auto simp add: less_Suc_eq_0_disj)
  qed
qed

lemma filter_update_outside:
  "i < length xs \<Longrightarrow> \<not> P (xs ! i) \<Longrightarrow> \<not> P y \<Longrightarrow> filter P (xs[i := y]) = filter P xs"
proof (induction xs arbitrary: i)
  case Nil
  then show ?case by simp
next
  case (Cons x xs)
  then show ?case by (cases i) simp_all
qed

lemma filter_update_key:
  "distinct (map f xs) \<Longrightarrow> i < length xs \<Longrightarrow> f (xs ! i) = k \<Longrightarrow> f y = k \<Longrightarrow>
   filter (\<lambda>t. f t = k) (xs[i := y]) = [y]"
proof (induction xs arbitrary: i)
  case Nil
  then show ?case by simp
next
  case (Cons x xs)
  show ?case
  proof (cases i)
    case 0
    with Cons.prems have "k \<notin> f ` set xs" by simp
    then have "\<forall>t \<in> set xs. f t \<noteq> k" by blast
    then have "filter (\<lambda>t. f t = k) xs = []" by (simp add: filter_empty_conv)
    with 0 Cons.prems show ?thesis by simp
  next
    case (Suc j)
    with Cons.prems have "f (xs ! j) = k" "j < length xs" by simp_all
    then have "k \<in> f ` set xs" by (metis imageI nth_mem)
    with Cons.prems have "f x \<noteq> k" by auto
    with Suc Cons.prems Cons.IH [of j] show ?thesis by simp
  qed
qed

lemma upsert_new:
  "stepIndex st \<notin> set (map stepIndex (reasoningSteps s)) \<Longrightarrow>
   reasoningSteps (addReasoningStep st s) = reasoningSteps s @ [st]"
  by (simp add: addReasoningStep_def findIndex_key_None [THEN iffD2])

lemma upsert_present:
  assumes "stepIndex st \<in> set (map stepIndex (reasoningSteps s))"
  shows "\<exists>i < length (reasoningSteps s). stepIndex (reasoningSteps s ! i) = stepIndex st
     \<and> reasoningSteps (addReasoningStep st s) = (reasoningSteps s)[i := st]"
proof (cases "findIndex (\<lambda>t. stepIndex t = stepIndex st) (reasoningSteps s)")
  case None
  with assms show ?thesis by (simp add: findIndex_key_None)
next
  case (Some i)
  from findIndex_Some [OF Some] Some show ?thesis
    by (auto simp add: addReasoningStep_def)
qed

lemma upsert_others:
  "filter (\<lambda>t. stepIndex t \<noteq> stepIndex st) (reasoningSteps (addReasoningStep st s)) =
   filter (\<lambda>t. stepIndex t \<noteq> stepIndex st) (reasoningSteps s)"
proof (cases "findIndex (\<lambda>t. stepIndex t = stepIndex st) (reasoningSteps s)")
  case None
  then show ?thesis by (simp add: addReasoningStep_def)
next
  case (Some i)
  from findIndex_Some [OF Some] Some show ?thesis
    by (simp add: addReasoningStep_def filter_update_outside)
qed

lemma upsert_distinct:
  assumes "distinct (map stepIndex (reasoningSteps s))"
  shows "distinct (map stepIndex (reasoningSteps (addReasoningStep st s)))"
proof (cases "findIndex (\<lambda>t. stepIndex t = stepIndex st) (reasoningSteps s)")
  case None
  then have "stepIndex st \<notin> set (map stepIndex (reasoningSteps s))"
    by (simp add: findIndex_key_None)
  with assms None show ?thesis by (simp add: addReasoningStep_def)
next
  case (Some i)
  from findIndex_Some [OF Some]
  have "(map stepIndex (reasoningSteps s))[i := stepIndex st] = map stepIndex (reasoningSteps s)"
    by (simp add: list_update_same_conv)
  with assms Some show ?thesis by (simp add: addReasoningStep_def map_update)
qed

lemma upsert_single:
  assumes "distinct (map stepIndex (reasoningSteps s))"
  shows "filter (\<lambda>t. stepIndex t = stepIndex st) (reasoningSteps (addReasoningStep st s)) = [st]"
proof (cases "findIndex (\<lambda>t. stepIndex t = stepIndex st) (reasoningSteps s)")
  case None
  then have "\<forall>t \<in> set (reasoningSteps s). stepIndex t \<noteq> stepIndex st"
    by (simp add: findIndex_None_iff)
  then have "filter (\<lambda>t. stepIndex t = stepIndex st) (reasoningSteps s) = []"
    by (simp add: filter_empty_conv)
  with None show ?thesis by (simp add: addReasoningStep_def)
next
  case (Some i)
  from findIndex_Some [OF Some] assms Some show ?thesis
    by (simp add: addReasoningStep_def filter_update_key)
qed

text \<open>No event makes two entries of the trace share an index.\<close>

lemma storeOp_trace_distinct:
  "distinct (map stepIndex (reasoningSteps s)) \<Longrightarrow>
   distinct (map stepIndex (reasoningSteps (storeOp x s)))"
  by (cases x)
    (simp_all add: upsert_distinct mutation_defs finalizeAssistantMessage_def Let_def
      split: option.split)

lemma step_trace_distinct:
  "distinct (map stepIndex (reasoningSteps (store w))) \<Longrightarrow>
   distinct (map stepIndex (reasoningSteps (store (step e w))))"
proof (cases e)
  case (Store_op x)
  then show "distinct (map stepIndex (reasoningSteps (store w))) \<Longrightarrow> ?thesis"
    by (simp add: storeOp_trace_distinct)
next
  case (Frame msg now)
  then show "distinct (map stepIndex (reasoningSteps (store w))) \<Longrightarrow> ?thesis"
    by (cases msg)
      (simp_all add: handler_defs mutation_defs finalizeAssistantMessage_def upsert_distinct
        split: option.split)
qed (simp_all add: handler_defs mutation_defs split: option.split prod.split)

lemma run_trace_distinct:
  "distinct (map stepIndex (reasoningSteps (store w))) \<Longrightarrow>
   distinct (map stepIndex (reasoningSteps (store (run es w))))"
  by (induction es arbitrary: w) (simp_all add: run_Nil run_Cons step_trace_distinct)

lemma reachable_trace_distinct:
  "distinct (map stepIndex (reasoningSteps (store (run es initialService))))"
  by (rule run_trace_distinct) (simp add: initialService_def initialStore_def)

lemma store_handleReasoningStep:
  "store (handleMessage (Reasoning_step p) now w) =
     addReasoningStep
       \<lparr> stepIndex = step_index p, node = node_rs p, status = status_rs p,
         message = message_rs p, timestamp = Date_of_string (timestamp_rs p) \<rparr> (store w)"
  by (simp add: handleMessage_def handleReasoningStep_def)

text \<open>
  C6. In every state \<open>w\<close> the service reaches from its initial state, by any events,
  the reasoning trace holds one entry per \<^verbatim>\<open>stepIndex\<close>, and a \<^verbatim>\<open>reasoning_step\<close> frame
  upserts by that key: an index already present is replaced at its position, by the
  delivered step; a new index is appended after all entries; afterwards exactly one
  entry carries the index, the delivered one; the other entries are the same, in the
  same order.
\<close>

theorem reasoning_step_upsert:
  fixes es :: "Event list" and p :: ReasoningStepPayload and now :: nat
  defines "w \<equiv> run es initialService"
  defines "tr \<equiv> reasoningSteps (store w)"
  defines "st \<equiv> \<lparr> stepIndex = step_index p, node = node_rs p, status = status_rs p,
      message = message_rs p, timestamp = Date_of_string (timestamp_rs p) \<rparr>"
  defines "tr' \<equiv> reasoningSteps (store (step (Frame (Reasoning_step p) now) w))"
  shows "(step_index p \<in> set (map stepIndex tr) \<longrightarrow>
            (\<exists>i < length tr. stepIndex (tr ! i) = step_index p \<and> tr' = tr[i := st]))
         \<and> (step_index p \<notin> set (map stepIndex tr) \<longrightarrow> tr' = tr @ [st])
         \<and> filter (\<lambda>t. stepIndex t = step_index p) tr' = [st]
         \<and> filter (\<lambda>t. stepIndex t \<noteq> step_index p) tr' =
             filter (\<lambda>t. stepIndex t \<noteq> step_index p) tr
         \<and> distinct (map stepIndex tr')"
proof -
  have d: "distinct (map stepIndex (reasoningSteps (store w)))"
    unfolding w_def by (rule reachable_trace_distinct)
  have k: "stepIndex st = step_index p"
    by (simp add: st_def)
  have t: "tr' = reasoningSteps (addReasoningStep st (store w))"
    by (simp add: tr'_def st_def store_handleReasoningStep)
  show ?thesis
    unfolding t tr_def
    using upsert_present [of st "store w"] upsert_new [of st "store w"]
      upsert_single [OF d, of st] upsert_others [of st "store w"] upsert_distinct [OF d, of st]
    by (simp add: k)
qed

theorem reasoning_step_upsert_witness:
  "map stepIndex (reasoningSteps (store (run threeSteps initialService))) = [1, 2, 3]
   \<and> map (\<lambda>t. (stepIndex t, status t))
        (reasoningSteps (store (step
          (Frame (Reasoning_step (ReasoningStepPayload 2 ''retrieve'' Completed ''ok'' ''t4'')) 4)
          (run threeSteps initialService)))) =
       [(1, Completed), (2, Completed), (3, Processing)]
   \<and> map (\<lambda>t. (stepIndex t, status t))
        (reasoningSteps (store (step
          (Frame (Reasoning_step (ReasoningStepPayload 0 ''answer'' Processing ''go'' ''t5'')) 5)
          (run threeSteps initialService)))) =
       [(1, Completed), (2, Processing), (3, Processing), (0, Processing)]"
  using
    reasoning_step_upsert [where es = threeSteps
      and p = "ReasoningStepPayload 2 ''retrieve'' Completed ''ok'' ''t4''" and now = 4]
    reasoning_step_upsert [where es = threeSteps
      and p = "ReasoningStepPayload 0 ''answer'' Processing ''go'' ''t5''" and now = 5]
  by (simp add: threeSteps_def service_defs store_defs)

section \<open>Streaming messages\<close>

lemma length_filter_map_le:
  "(\<And>x. P (f x) \<Longrightarrow> P x) \<Longrightarrow> length (filter P (map f xs)) \<le> length (filter P xs)"
  by (induction xs) auto

lemma finalize_streaming_le:
  "length (streamingMessages (finalizeAssistantMessage k c md s)) \<le>
   length (streamingMessages s)"
proof -
  have "length (filter (\<lambda>m. role m = Assistant \<and> isStreaming m = Some True)
          (map (\<lambda>msg. if id_msg msg = k then finalized c md msg else msg) (messages s)))
        \<le> length (filter (\<lambda>m. role m = Assistant \<and> isStreaming m = Some True) (messages s))"
    by (rule length_filter_map_le) (simp add: finalized_def split: if_splits)
  then show ?thesis
    by (simp add: streamingMessages_def finalizeAssistantMessage_def)
qed

lemma storeOp_streaming_le:
  "\<not> (\<exists>uuid now. x = StartAssistantMessage uuid now) \<Longrightarrow>
   length (streamingMessages (storeOp x s)) \<le> length (streamingMessages s)"
  by (cases x)
    (simp_all add: finalize_streaming_le, simp_all add: streamingMessages_def mutation_defs
      addReasoningStep_def Let_def split: option.split)

text \<open>An event that starts a turn adds exactly one streaming message.\<close>

lemma step_streaming_start:
  "startsTurn e w \<Longrightarrow>
   length (streamingMessages (store (step e w))) = length (streamingMessages (store w)) + 1"
proof (cases e)
  case (Store_op x)
  then show "startsTurn e w \<Longrightarrow> ?thesis"
    by (cases x) (simp_all add: streamingMessages_def startAssistantMessage_def)
qed (simp_all add: streamingMessages_def sendQuery_def sendClarificationResponse_def
    addUserMessage_def startAssistantMessage_def setPendingClarification_def Let_def)

lemma handleMessage_streaming_le:
  "length (streamingMessages (store (handleMessage msg now w))) \<le>
   length (streamingMessages (store w))"
proof (cases msg)
  case (Response_complete p)
  then show ?thesis
    by (simp add: handleMessage_def handleResponseComplete_def Let_def finalize_streaming_le)
qed (simp_all add: streamingMessages_def handler_defs mutation_defs addReasoningStep_def
    split: option.split)

text \<open>No other event adds one.\<close>

lemma step_streaming_le:
  "\<not> startsTurn e w \<Longrightarrow>
   length (streamingMessages (store (step e w))) \<le> length (streamingMessages (store w))"
proof (cases e)
  case (Store_op x)
  assume "\<not> startsTurn e w"
  with Store_op have "\<not> (\<exists>uuid now. x = StartAssistantMessage uuid now)"
    by auto
  from storeOp_streaming_le [OF this] show ?thesis
    by (simp add: Store_op)
next
  case (Frame msg now)
  then show "\<not> startsTurn e w \<Longrightarrow> ?thesis"
    by (simp add: handleMessage_streaming_le)
qed (auto simp add: streamingMessages_def handler_defs mutation_defs split: option.split)

text \<open>
  C7. The claim says that at most one assistant message is streaming in every state the
  store's operations and the service's calls reach. When the server answers a query
  directly (\<open>answeredQuery\<close>), \<^verbatim>\<open>response_complete\<close> finalizes the placeholder
  \<^verbatim>\<open>sendQuery\<close> started and no message is streaming. When the server asks for a
  clarification (\<open>clarifiedTurn\<close>), \<^verbatim>\<open>sendClarificationResponse\<close> starts a second
  placeholder while the first is still streaming: two assistant messages are streaming,
  and the \<^verbatim>\<open>response_complete\<close> that ends the turn finalizes the last message only, so the
  first placeholder stays streaming.
\<close>

theorem clarification_leaves_two_streaming:
  "map id_msg (streamingMessages (store (run answeredQuery initialService))) = []
   \<and> map id_msg (streamingMessages (store (run clarifiedTurn initialService))) =
       [''a1'', ''a2'']
   \<and> \<not> length (streamingMessages (store (run clarifiedTurn initialService))) \<le> 1
   \<and> map id_msg (streamingMessages (store
        (run (clarifiedTurn @ [Frame (Response_complete samplePayload) 5]) initialService))) =
       [''a1'']"
  by (simp add: answeredQuery_def clarifiedTurn_def samplePayload_def streamingMessages_def
      service_defs store_defs)

section \<open>Reconnection\<close>

lemma handleDisconnect_retry:
  "reconnectAttempts w < 5 \<Longrightarrow> truthy (currentSessionId_ws w) \<Longrightarrow>
   handleDisconnect w =
     w\<lparr> reconnectAttempts := reconnectAttempts w + 1,
        timers := timers w @ [min (1000 * 2 ^ (reconnectAttempts w + 1)) 30000] \<rparr>"
  by (simp add: handleDisconnect_def maxReconnectAttempts_def Let_def)

lemma handleDisconnect_exhausted:
  "5 \<le> reconnectAttempts w \<Longrightarrow>
   handleDisconnect w =
     w\<lparr> store := setConnectionStatus Error
            (Some ''Connection failed after multiple attempts'') (store w) \<rparr>"
  by (simp add: handleDisconnect_def maxReconnectAttempts_def)

lemma connect_fields:
  "currentSessionId_ws (connect sid t w) = Some sid"
  "reconnectAttempts (connect sid t w) = reconnectAttempts w"
  "timers (connect sid t w) = timers w"
  by (simp_all add: connect_def disconnect_def stopPingInterval_def Let_def split: option.split)

lemma stopPingInterval_fields:
  "currentSessionId_ws (stopPingInterval w) = currentSessionId_ws w"
  "reconnectAttempts (stopPingInterval w) = reconnectAttempts w"
  "timers (stopPingInterval w) = timers w"
  "store (stopPingInterval w) = store w"
  by (simp_all add: stopPingInterval_def)

text \<open>No event takes the attempt counter above the cap.\<close>

lemma reconnectAttempts_capped:
  "reconnectAttempts w \<le> 5 \<Longrightarrow> reconnectAttempts (step e w) \<le> 5"
proof (cases e)
  case (Frame msg now)
  then show "reconnectAttempts w \<le> 5 \<Longrightarrow> reconnectAttempts (step e w) \<le> 5"
    by (cases msg) (simp_all add: handler_defs split: option.split)
qed (simp_all add: handler_defs split: option.split prod.split)

text \<open>
  The state after the first unclean close and \<open>k\<close> failed retries, by induction on \<open>k\<close>:
  while \<open>k < 5\<close> the counter is \<open>k + 1\<close> and exactly one timer is pending, with the delay
  of attempt \<open>k + 1\<close>; from \<open>k = 5\<close> on the counter stays 5, no timer is pending and the
  status is \<open>error\<close>.
\<close>

lemma failing_run:
  assumes "reconnectAttempts w = 0" and "currentSessionId_ws w = Some sid" and "sid \<noteq> []"
    and "token \<noteq> []" and "timers w = []"
  shows "currentSessionId_ws (run (failingRetries k token) w) = Some sid
    \<and> (if k < 5 then
          reconnectAttempts (run (failingRetries k token) w) = k + 1
          \<and> timers (run (failingRetries k token) w) = [min (1000 * 2 ^ (k + 1)) 30000]
        else
          reconnectAttempts (run (failingRetries k token) w) = 5
          \<and> timers (run (failingRetries k token) w) = []
          \<and> wsStatus (store (run (failingRetries k token) w)) = Error
          \<and> wsError (store (run (failingRetries k token) w)) =
              Some ''Connection failed after multiple attempts'')"
proof (induction k)
  case 0
  show ?case
    using assms
    by (simp add: run_Cons run_Nil onClose_def stopPingInterval_fields handleDisconnect_retry
        truthy_def)
next
  case (Suc k)
  let ?v = "run (failingRetries k token) w"
  let ?u = "timerFired 0 (Some token) ?v"
  have sid_v: "currentSessionId_ws ?v = Some sid" using Suc.IH by simp
  have step: "run (failingRetries (Suc k) token) w = handleDisconnect (stopPingInterval ?u)"
    by (simp add: run_append run_Cons run_Nil onClose_def)
  show ?case
  proof (cases "k < 5")
    case True
    then have v: "reconnectAttempts ?v = k + 1" "timers ?v = [min (1000 * 2 ^ (k + 1)) 30000]"
      using Suc.IH by simp_all
    have u: "currentSessionId_ws ?u = Some sid" "reconnectAttempts ?u = k + 1" "timers ?u = []"
      using v sid_v assms(3,4)
      by (simp_all add: timerFired_def retryCallback_def connect_fields)
    show ?thesis
    proof (cases "k + 1 < 5")
      case True
      then show ?thesis
        unfolding step using u assms(3)
        by (simp add: handleDisconnect_retry stopPingInterval_fields truthy_def)
    next
      case False
      with \<open>k < 5\<close> have k4: "k = 4" by simp
      show ?thesis
        unfolding step using u k4
        by (simp add: handleDisconnect_exhausted stopPingInterval_fields
            setConnectionStatus_def)
    qed
  next
    case False
    then have v: "reconnectAttempts ?v = 5" "timers ?v = []"
      using Suc.IH by simp_all
    have u: "?u = ?v" using v by (simp add: timerFired_def)
    show ?thesis
      unfolding step u using False v sid_v
      by (simp add: handleDisconnect_exhausted stopPingInterval_fields
          setConnectionStatus_def)
  qed
qed

text \<open>
  C1. The attempt counter starts at 0 and no event takes it above 5. While it is below
  5 and a session is bound, \<^verbatim>\<open>handleDisconnect\<close> increments it to \<open>n\<close> and schedules one
  timer with the delay \<open>min (1000 * 2 ^ n) 30000\<close>, changing nothing else; at 5 it schedules
  nothing and sets the status \<open>error\<close> with the message
  \<open>Connection failed after multiple attempts\<close>. So, from a counter of 0 with a session
  bound and no timer pending, a transport that keeps failing sees the delays 2000, 4000,
  8000, 16000 and 30000 ms before the retries 1 to 5, and after the fifth retry has
  failed no timer is pending any more, however long the run goes on: a sixth retry is
  never scheduled, and the status is \<open>error\<close> with that message.

  (What the library reports on the stream's error channel, \<open>StreamError\<close>, is an event of
  its own and not part of \<open>failingRetries\<close>.)
\<close>

theorem reconnection_policy:
  "reconnectAttempts initialService = 0
   \<and> (reconnectAttempts w \<le> 5 \<longrightarrow> reconnectAttempts (step e w) \<le> 5)
   \<and> (reconnectAttempts w < 5 \<and> truthy (currentSessionId_ws w) \<longrightarrow>
        handleDisconnect w =
          w\<lparr> reconnectAttempts := reconnectAttempts w + 1,
             timers := timers w @ [min (1000 * 2 ^ (reconnectAttempts w + 1)) 30000] \<rparr>)
   \<and> (5 \<le> reconnectAttempts w \<longrightarrow>
        handleDisconnect w =
          w\<lparr> store := setConnectionStatus Error
                 (Some ''Connection failed after multiple attempts'') (store w) \<rparr>)
   \<and> (reconnectAttempts w = 0 \<and> truthy (currentSessionId_ws w) \<and> token \<noteq> []
        \<and> timers w = [] \<longrightarrow>
        map (\<lambda>k. timers (run (failingRetries k token) w)) [0, 1, 2, 3, 4] =
          [[2000], [4000], [8000], [16000], [30000]]
        \<and> (\<forall>k \<ge> 5. timers (run (failingRetries k token) w) = []
              \<and> wsStatus (store (run (failingRetries k token) w)) = Error
              \<and> wsError (store (run (failingRetries k token) w)) =
                  Some ''Connection failed after multiple attempts''))"
proof -
  have run5: "map (\<lambda>k. timers (run (failingRetries k token) w)) [0, 1, 2, 3, 4] =
          [[2000], [4000], [8000], [16000], [30000]]
        \<and> (\<forall>k \<ge> 5. timers (run (failingRetries k token) w) = []
              \<and> wsStatus (store (run (failingRetries k token) w)) = Error
              \<and> wsError (store (run (failingRetries k token) w)) =
                  Some ''Connection failed after multiple attempts'')"
    if h: "reconnectAttempts w = 0" "truthy (currentSessionId_ws w)" "token \<noteq> []" "timers w = []"
  proof -
    from h(2) obtain sid where sid: "currentSessionId_ws w = Some sid" "sid \<noteq> []"
      by (auto simp add: truthy_def split: option.splits)
    note F = failing_run [OF h(1) sid(1) sid(2) h(3) h(4)]
    show ?thesis
      using F [of 0] F [of 1] F [of 2] F [of 3] F [of 4] F
      by simp
  qed
  show ?thesis
    using run5
    by (simp add: initialService_def reconnectAttempts_capped handleDisconnect_retry
        handleDisconnect_exhausted)
qed

theorem reconnection_policy_witness:
  "reconnectAttempts connectedService = 0 \<and> truthy (currentSessionId_ws connectedService)
   \<and> timers connectedService = []
   \<and> timers (handleDisconnect connectedService) = [2000]
   \<and> reconnectAttempts (step (Closed False) connectedService) \<le> 5
   \<and> timers (run (failingRetries 0 ''tok'') connectedService) = [2000]
   \<and> timers (run (failingRetries 1 ''tok'') connectedService) = [4000]
   \<and> timers (run (failingRetries 2 ''tok'') connectedService) = [8000]
   \<and> timers (run (failingRetries 3 ''tok'') connectedService) = [16000]
   \<and> timers (run (failingRetries 4 ''tok'') connectedService) = [30000]
   \<and> timers (run (failingRetries 5 ''tok'') connectedService) = []
   \<and> wsStatus (store (run (failingRetries 5 ''tok'') connectedService)) = Error
   \<and> wsError (store (run (failingRetries 5 ''tok'') connectedService)) =
       Some ''Connection failed after multiple attempts''
   \<and> timers (run (failingRetries 6 ''tok'') connectedService) = []
   \<and> timers (handleDisconnect (connectedService\<lparr> reconnectAttempts := 5 \<rparr>)) = []
   \<and> wsError (store (handleDisconnect (connectedService\<lparr> reconnectAttempts := 5 \<rparr>))) =
       Some ''Connection failed after multiple attempts''"
proof -
  have a: "reconnectAttempts connectedService = 0" "truthy (currentSessionId_ws connectedService)"
    "timers connectedService = []"
    by (simp_all add: connectedService_eval truthy_def)
  note T = reconnection_policy [of connectedService "Closed False" "''tok''"]
  from T a have b: "timers (handleDisconnect connectedService) = [2000]"
    by simp
  from T a have c: "reconnectAttempts (step (Closed False) connectedService) \<le> 5"
    by simp
  from a have h: "reconnectAttempts connectedService = 0
      \<and> truthy (currentSessionId_ws connectedService) \<and> ''tok'' \<noteq> []
      \<and> timers connectedService = []"
    by simp
  note R = T [THEN conjunct2, THEN conjunct2, THEN conjunct2, THEN conjunct2, THEN mp, OF h]
  from R have d: "timers (run (failingRetries 0 ''tok'') connectedService) = [2000]
      \<and> timers (run (failingRetries 1 ''tok'') connectedService) = [4000]
      \<and> timers (run (failingRetries 2 ''tok'') connectedService) = [8000]
      \<and> timers (run (failingRetries 3 ''tok'') connectedService) = [16000]
      \<and> timers (run (failingRetries 4 ''tok'') connectedService) = [30000]"
    by simp
  note R5 = R [THEN conjunct2, THEN spec, of 5, simplified]
    and R6 = R [THEN conjunct2, THEN spec, of 6, simplified]
  have f: "timers (handleDisconnect (connectedService\<lparr> reconnectAttempts := 5 \<rparr>)) = []
      \<and> wsError (store (handleDisconnect (connectedService\<lparr> reconnectAttempts := 5 \<rparr>))) =
          Some ''Connection failed after multiple attempts''"
    using reconnection_policy [of "connectedService\<lparr> reconnectAttempts := 5 \<rparr>"
        "Closed False" "''tok''"] a
    by (simp add: setConnectionStatus_def)
  from a b c d R5 R6 f show ?thesis
    by blast
qed

section \<open>Disconnecting\<close>

text \<open>
  \<^verbatim>\<open>disconnect()\<close> clears the keepalive interval, but it does not cancel a pending
  reconnection timer (only \<^verbatim>\<open>ngOnDestroy\<close> does, through \<^verbatim>\<open>destroy$\<close>). The timer's
  callback tests the session binding, which \<^verbatim>\<open>disconnect()\<close> clears: fired right after
  the disconnect, the timer does nothing.
\<close>

lemma disconnect_then_fire:
  "intervalFired (disconnect w) = disconnect w
   \<and> created (timerFired i token (disconnect w)) = created w
   \<and> sent (timerFired i token (disconnect w)) = sent w
   \<and> store (timerFired i token (disconnect w)) = store (disconnect w)
   \<and> socket (timerFired i token (disconnect w)) = None
   \<and> pingInterval (timerFired i token (disconnect w)) = None"
  by (simp add: intervalFired_def timerFired_def retryCallback_def disconnect_def
      stopPingInterval_def Let_def split: option.split)

text \<open>\<^verbatim>\<open>ngOnDestroy\<close> cancels the pending timers; \<^verbatim>\<open>disconnect()\<close> keeps them.\<close>

lemma ngOnDestroy_cancels: "timers (ngOnDestroy w) = []"
  by (simp add: ngOnDestroy_def disconnect_def stopPingInterval_def Let_def split: option.split)

lemma disconnect_keeps_timers: "timers (disconnect w) = timers w"
  by (simp add: disconnect_def stopPingInterval_def Let_def split: option.split)

text \<open>
  C8. The claim says that after \<^verbatim>\<open>disconnect()\<close> the pending retry never performs a
  connect. The session binding is the callback's only validity check, and a later
  \<^verbatim>\<open>connect\<close> binds a session again. In \<open>pendingRetry\<close> the first timer (2000 ms) is
  pending; the user then switches to session \<open>s2\<close> (\<^verbatim>\<open>disconnect()\<close>, then
  \<^verbatim>\<open>connect('s2', token)\<close>, as \<^verbatim>\<open>selectSessionById\<close> does) and the new stream opens. When the
  timer of the old connection fires it calls \<^verbatim>\<open>connect\<close>: the live stream to \<open>s2\<close> is
  completed and a third stream is created, the status falls back to \<open>connecting\<close>, and once
  that stream opens the keepalive pings again.
\<close>

theorem stale_retry_reconnects:
  "timers pendingRetry = [2000]
   \<and> timers (step Disconnect pendingRetry) = [2000]
   \<and> created (run [Disconnect, Connect ''s2'' ''tok'', Opened] pendingRetry) =
       [WebSocketSubject ''s1'' ''tok'', WebSocketSubject ''s2'' ''tok'']
   \<and> created (run [Disconnect, Connect ''s2'' ''tok'', Opened, TimerFired 0 (Some ''tok'')]
        pendingRetry) =
       [WebSocketSubject ''s1'' ''tok'', WebSocketSubject ''s2'' ''tok'',
        WebSocketSubject ''s2'' ''tok'']
   \<and> completed (run [Disconnect, Connect ''s2'' ''tok'', Opened, TimerFired 0 (Some ''tok'')]
        pendingRetry) =
       [WebSocketSubject ''s1'' ''tok'', WebSocketSubject ''s2'' ''tok'']
   \<and> wsStatus (store (run [Disconnect, Connect ''s2'' ''tok'', Opened,
        TimerFired 0 (Some ''tok'')] pendingRetry)) = Connecting
   \<and> sent (run [Disconnect, Connect ''s2'' ''tok'', Opened, TimerFired 0 (Some ''tok''),
        Opened, IntervalFired] pendingRetry) = [Ping]"
  by (simp add: pendingRetry_def connectedService_eval service_defs store_defs)

end
